theory Spec2Isabelle
  imports Complex_Main "HOL-Library.Sublist"
begin

section \<open>Data model\<close>

text \<open>
  The order lifecycle of \<^verbatim>\<open>src/app.py\<close>: the Flask handlers that create an order, move it
  through its statuses, bind a courier to it, run the delivery/receipt handshake, cancel it,
  and validate a coupon.

  Conventions of the embedding.
  \<^item> A MongoDB \<^verbatim>\<open>ObjectId\<close> is a natural number; the JWT identity of the caller is the id of
    a user, so \<^verbatim>\<open>str(order['customerId']) != current_user_id\<close> is inequality of ids.
  \<^item> \<^verbatim>\<open>datetime.utcnow()\<close> is a parameter \<open>now\<close> of each handler, and the local date string
    \<^verbatim>\<open>datetime.now().strftime('%Y%m%d')\<close> is a parameter \<open>today\<close>.
  \<^item> Amounts are exact rationals. Python computes them in binary floating point; the
    model is the exact arithmetic that those floats approximate, with \<^verbatim>\<open>round(x, 2)\<close> as
    rounding to the nearest hundredth, ties to the even neighbour.
  \<^item> A handler returns its HTTP outcome and the new store: \<open>Inl\<close> an error status,
    \<open>Inr\<close> the payload of a 2xx response. Response messages are not modelled.
  \<^item> A field read with \<^verbatim>\<open>.get\<close> that may be absent or \<^verbatim>\<open>None\<close> is an \<open>option\<close>.
  \<^item> Request bodies are well-typed JSON objects and ids are well-formed, so the generic
    \<^verbatim>\<open>except Exception\<close> branch (HTTP 500) is not reached.
  \<^item> Handlers run one at a time: a call is one step from store to store. The unique index
    on \<^verbatim>\<open>orderNumber\<close> that \<^verbatim>\<open>init_database\<close> creates is not part of the model.
  \<^item> The counters \<^verbatim>\<open>totalOrders\<close> of restaurants and dishes that order creation increments
    are never read by these handlers and are left out, as are the order fields
    \<^verbatim>\<open>coupon\<close>, \<^verbatim>\<open>estimatedDeliveryTime\<close>, \<^verbatim>\<open>customerNotes\<close> and \<^verbatim>\<open>rating\<close>.
\<close>

type_synonym oid = nat
type_synonym datetime = nat
type_synonym money = rat

datatype error = BadRequest | Forbidden | NotFound

fun status_code :: "error \<Rightarrow> nat" where
  "status_code BadRequest = 400"
| "status_code Forbidden = 403"
| "status_code NotFound = 404"

record order_item =
  item_dishId :: "oid option"
  item_restaurantId :: oid
  item_name :: string
  item_quantity :: nat
  item_subtotal :: money

record status_entry =
  h_status :: string
  h_timestamp :: datetime
  h_note :: string

record order =
  orderNumber :: string
  customerId :: oid
  restaurantId :: oid
  deliveryPersonId :: "oid option"
  items :: "order_item list"
  deliveryAddress :: string
  subtotal :: money
  deliveryFee :: money
  discount :: money
  tax :: money
  tip :: money
  total :: money
  status :: string
  statusHistory :: "status_entry list"
  paymentMethod :: string
  paymentStatus :: string
  createdAt :: datetime
  updatedAt :: datetime
  confirmedAt :: "datetime option"
  preparingAt :: "datetime option"
  readyAt :: "datetime option"
  onDeliveryAt :: "datetime option"
  acceptedAt :: "datetime option"
  deliveredAt :: "datetime option"
  receivedAt :: "datetime option"
  cancelledAt :: "datetime option"
  cancellationReason :: "string option"
  cancelledBy :: "string option"

record user =
  name :: string
  role :: string

record delivery_person =
  userId :: oid
  isAvailable :: bool
  isOnline :: bool

record coupon =
  code :: string
  discountType :: string
  discountValue :: money
  minOrderAmount :: "money option"
  maxDiscountAmount :: "money option"
  usageLimit :: "nat option"
  usageCount :: "nat option"
  validFrom :: "datetime option"
  validUntil :: "datetime option"
  isActive :: bool
  applicableTo :: "string option"
  restaurantIds :: "oid list"
  isForNewUsersOnly :: bool

record notification =
  n_userId :: oid
  n_orderId :: oid
  n_status :: "string option"

text \<open>
  The collections. \<open>orders\<close> is a list of documents with their \<^verbatim>\<open>_id\<close>, in insertion
  order, because \<^verbatim>\<open>count_documents\<close> counts it; \<^verbatim>\<open>find_one\<close> and \<^verbatim>\<open>update_one\<close> act on the
  first document that matches.
\<close>

record state =
  users :: "oid \<rightharpoonup> user"
  orders :: "(oid \<times> order) list"
  delivery_persons :: "oid \<rightharpoonup> delivery_person"
  coupons :: "coupon list"
  notifications :: "notification list"

definition find_order :: "oid \<Rightarrow> state \<Rightarrow> order option" where
  "find_order order_id st = map_of (orders st) order_id"

fun update_one :: "oid \<Rightarrow> (order \<Rightarrow> order) \<Rightarrow> (oid \<times> order) list \<Rightarrow> (oid \<times> order) list" where
  "update_one i f [] = []"
| "update_one i f ((k, d) # rest) =
     (if k = i then (k, f d) # rest else (k, d) # update_one i f rest)"

definition update_order :: "oid \<Rightarrow> (order \<Rightarrow> order) \<Rightarrow> state \<Rightarrow> state" where
  "update_order order_id f st = st\<lparr>orders := update_one order_id f (orders st)\<rparr>"

definition push_history :: "string \<Rightarrow> datetime \<Rightarrow> string \<Rightarrow> order \<Rightarrow> order" where
  "push_history s now n d =
     d\<lparr>statusHistory := statusHistory d @ [\<lparr>h_status = s, h_timestamp = now, h_note = n\<rparr>]\<rparr>"

definition notify :: "oid \<Rightarrow> oid \<Rightarrow> string option \<Rightarrow> state \<Rightarrow> state" where
  "notify uid order_id s st =
     st\<lparr>notifications := notifications st @ [\<lparr>n_userId = uid, n_orderId = order_id, n_status = s\<rparr>]\<rparr>"

section \<open>Rounding and order numbers\<close>

text \<open>Python's \<^verbatim>\<open>round(x, 2)\<close>: the nearest multiple of 1/100, a tie going to the even one.\<close>

definition round_half_even :: "rat \<Rightarrow> int" where
  "round_half_even x =
     (let f = \<lfloor>x\<rfloor>; r = x - of_int f
      in if r < 1 / 2 then f else if 1 / 2 < r then f + 1 else if even f then f else f + 1)"

definition round2 :: "money \<Rightarrow> money" where
  "round2 x = of_int (round_half_even (x * 100)) / 100"

text \<open>\<^verbatim>\<open>str(n)\<close> for a non-negative integer, and \<^verbatim>\<open>s.zfill(width)\<close> for a string of digits.\<close>

definition digit_char :: "nat \<Rightarrow> char" where
  "digit_char d = char_of (48 + d)"

fun str_nat :: "nat \<Rightarrow> string" where
  "str_nat n = (if n < 10 then [digit_char n] else str_nat (n div 10) @ [digit_char (n mod 10)])"

declare str_nat.simps [simp del]

definition zfill :: "nat \<Rightarrow> string \<Rightarrow> string" where
  "zfill width s = replicate (width - length s) (CHR ''0'') @ s"

text \<open>
  \<^verbatim>\<open>generate_order_number\<close>: the regular expression \<^verbatim>\<open>^ORD-<today>\<close> holds no metacharacter,
  so it matches exactly the order numbers that start with that text.
\<close>

definition count_today :: "string \<Rightarrow> (oid \<times> order) list \<Rightarrow> nat" where
  "count_today today os =
     length (filter (\<lambda>(k, d). prefix (''ORD-'' @ today) (orderNumber d)) os)"

definition generate_order_number :: "string \<Rightarrow> state \<Rightarrow> string" where
  "generate_order_number today st =
     (let count = count_today today (orders st)
      in ''ORD-'' @ today @ ''-'' @ zfill 4 (str_nat (count + 1)))"

section \<open>Order creation\<close>

record create_order_request =
  req_items :: "order_item list"
  req_deliveryAddress :: "string option"
  req_deliveryFee :: "money option"
  req_discount :: "money option"
  req_tip :: "money option"
  req_paymentMethod :: "string option"

definition get_or :: "'a option \<Rightarrow> 'a \<Rightarrow> 'a" where
  "get_or v dflt = (case v of None \<Rightarrow> dflt | Some x \<Rightarrow> x)"

text \<open>
  \<^verbatim>\<open>create_order\<close>. \<open>new_id\<close> is the \<^verbatim>\<open>_id\<close> that \<^verbatim>\<open>insert_one\<close> gives the document. The total
  is computed from the unrounded tax, and each amount is rounded as it is stored.
\<close>

definition create_order ::
  "datetime \<Rightarrow> string \<Rightarrow> oid \<Rightarrow> oid \<Rightarrow> create_order_request \<Rightarrow> state \<Rightarrow> (error + order) \<times> state" where
  "create_order now today new_id current_user_id data st =
     (case req_items data of
        [] \<Rightarrow> (Inl BadRequest, st)
      | first # _ \<Rightarrow>
        (case req_deliveryAddress data of
           None \<Rightarrow> (Inl BadRequest, st)
         | Some address \<Rightarrow>
           if address = [] then (Inl BadRequest, st)
           else
             let subtotal_v = sum_list (map item_subtotal (req_items data));
                 delivery_fee = get_or (req_deliveryFee data) 35;
                 discount_v = get_or (req_discount data) 0;
                 tax_v = subtotal_v * (16 / 100);
                 tip_v = get_or (req_tip data) 0;
                 total_v = subtotal_v + delivery_fee - discount_v + tax_v + tip_v;
                 d = \<lparr> orderNumber = generate_order_number today st,
                       customerId = current_user_id,
                       restaurantId = item_restaurantId first,
                       deliveryPersonId = None,
                       items = req_items data,
                       deliveryAddress = address,
                       subtotal = round2 subtotal_v,
                       deliveryFee = round2 delivery_fee,
                       discount = round2 discount_v,
                       tax = round2 tax_v,
                       tip = round2 tip_v,
                       total = round2 total_v,
                       status = ''pending'',
                       statusHistory =
                         [\<lparr>h_status = ''pending'', h_timestamp = now, h_note = ''Pedido recibido''\<rparr>],
                       paymentMethod = get_or (req_paymentMethod data) ''cash'',
                       paymentStatus = ''pending'',
                       createdAt = now,
                       updatedAt = now,
                       confirmedAt = None, preparingAt = None, readyAt = None,
                       onDeliveryAt = None, acceptedAt = None, deliveredAt = None,
                       receivedAt = None, cancelledAt = None,
                       cancellationReason = None, cancelledBy = None \<rparr>
             in (Inr d, notify current_user_id new_id None (st\<lparr>orders := orders st @ [(new_id, d)]\<rparr>))))"

section \<open>Authorisation decorator\<close>

text \<open>
  \<^verbatim>\<open>role_required\<close>: the caller's user document must exist and carry one of the roles,
  else 403 before the handler runs.
\<close>

definition role_required ::
  "string list \<Rightarrow> oid \<Rightarrow> (state \<Rightarrow> (error + 'a) \<times> state) \<Rightarrow> state \<Rightarrow> (error + 'a) \<times> state" where
  "role_required required_roles current_user_id f st =
     (case users st current_user_id of
        None \<Rightarrow> (Inl Forbidden, st)
      | Some u \<Rightarrow> if role u \<in> set required_roles then f st else (Inl Forbidden, st))"

section \<open>Status transitions\<close>

record status_request =
  req_status :: "string option"
  req_note :: "string option"

definition valid_statuses :: "string list" where
  "valid_statuses =
     [''pending'', ''confirmed'', ''preparing'', ''ready'', ''on_delivery'', ''delivered'',
      ''cancelled'']"

text \<open>The phase timestamp that goes with the new status; \<^verbatim>\<open>delivered\<close> also marks the order paid.\<close>

definition set_phase :: "string \<Rightarrow> datetime \<Rightarrow> order \<Rightarrow> order" where
  "set_phase new_status now d =
     (if new_status = ''confirmed'' then d\<lparr>confirmedAt := Some now\<rparr>
      else if new_status = ''preparing'' then d\<lparr>preparingAt := Some now\<rparr>
      else if new_status = ''ready'' then d\<lparr>readyAt := Some now\<rparr>
      else if new_status = ''on_delivery'' then d\<lparr>onDeliveryAt := Some now\<rparr>
      else if new_status = ''delivered'' then d\<lparr>deliveredAt := Some now, paymentStatus := ''paid''\<rparr>
      else d)"

definition update_order_status_body ::
  "datetime \<Rightarrow> oid \<Rightarrow> status_request \<Rightarrow> state \<Rightarrow> (error + unit) \<times> state" where
  "update_order_status_body now order_id data st =
     (case req_status data of
        None \<Rightarrow> (Inl BadRequest, st)
      | Some new_status \<Rightarrow>
        if new_status = [] then (Inl BadRequest, st)
        else if new_status \<notin> set valid_statuses then (Inl BadRequest, st)
        else
          (case find_order order_id st of
             None \<Rightarrow> (Inl NotFound, st)
           | Some found \<Rightarrow>
             let st1 = update_order order_id
                   (\<lambda>d. push_history new_status now (get_or (req_note data) [])
                          (set_phase new_status now (d\<lparr>status := new_status, updatedAt := now\<rparr>))) st
             in (Inr (), notify (customerId found) order_id (Some new_status) st1)))"

definition update_order_status ::
  "datetime \<Rightarrow> oid \<Rightarrow> oid \<Rightarrow> status_request \<Rightarrow> state \<Rightarrow> (error + unit) \<times> state" where
  "update_order_status now current_user_id order_id data =
     role_required [''admin'', ''restaurant_owner'', ''delivery''] current_user_id
       (update_order_status_body now order_id data)"

section \<open>Dispatch\<close>

text \<open>
  \<^verbatim>\<open>assign_delivery_person\<close> looks the courier up among the available, online delivery
  persons and then updates the order without reading it first; \<^verbatim>\<open>update_one\<close> on an id that
  matches no document changes nothing.
\<close>

definition assign_delivery_person_body ::
  "datetime \<Rightarrow> oid \<Rightarrow> oid option \<Rightarrow> state \<Rightarrow> (error + unit) \<times> state" where
  "assign_delivery_person_body now order_id delivery_person_id st =
     (case delivery_person_id of
        None \<Rightarrow> (Inl BadRequest, st)
      | Some dp_id \<Rightarrow>
        (case delivery_persons st dp_id of
           None \<Rightarrow> (Inl NotFound, st)
         | Some dp \<Rightarrow>
           if isAvailable dp \<and> isOnline dp then
             let st1 = update_order order_id
                   (\<lambda>d. d\<lparr>deliveryPersonId := Some dp_id, status := ''on_delivery'',
                          onDeliveryAt := Some now, updatedAt := now\<rparr>) st
             in (Inr (), st1\<lparr>delivery_persons :=
                               (delivery_persons st1)(dp_id \<mapsto> dp\<lparr>isAvailable := False\<rparr>)\<rparr>)
           else (Inl NotFound, st)))"

definition assign_delivery_person ::
  "datetime \<Rightarrow> oid \<Rightarrow> oid \<Rightarrow> oid option \<Rightarrow> state \<Rightarrow> (error + unit) \<times> state" where
  "assign_delivery_person now current_user_id order_id delivery_person_id =
     role_required [''admin'', ''restaurant_owner''] current_user_id
       (assign_delivery_person_body now order_id delivery_person_id)"

definition accept_delivery_order_body ::
  "datetime \<Rightarrow> oid \<Rightarrow> oid \<Rightarrow> state \<Rightarrow> (error + unit) \<times> state" where
  "accept_delivery_order_body now current_user_id order_id st =
     (case find_order order_id st of
        None \<Rightarrow> (Inl NotFound, st)
      | Some found \<Rightarrow>
        if deliveryPersonId found \<noteq> None then (Inl BadRequest, st)
        else
          (Inr (), update_order order_id
             (\<lambda>d. d\<lparr>deliveryPersonId := Some current_user_id, status := ''on_delivery'',
                    acceptedAt := Some now, updatedAt := now\<rparr>) st))"

definition accept_delivery_order ::
  "datetime \<Rightarrow> oid \<Rightarrow> oid \<Rightarrow> state \<Rightarrow> (error + unit) \<times> state" where
  "accept_delivery_order now current_user_id order_id =
     role_required [''delivery''] current_user_id
       (accept_delivery_order_body now current_user_id order_id)"

section \<open>Delivery confirmation and cancellation\<close>

text \<open>The letter o with acute accent of the Spanish notes, in UTF-8.\<close>

definition o_acute :: string where
  "o_acute = [CHR 0xC3, CHR 0xB3]"

definition confirm_delivery_body ::
  "datetime \<Rightarrow> oid \<Rightarrow> oid \<Rightarrow> state \<Rightarrow> (error + unit) \<times> state" where
  "confirm_delivery_body now current_user_id order_id st =
     (case find_order order_id st of
        None \<Rightarrow> (Inl NotFound, st)
      | Some found \<Rightarrow>
        if deliveryPersonId found \<noteq> Some current_user_id then (Inl NotFound, st)
        else
          let st1 = update_order order_id
                (\<lambda>d. push_history ''delivering_confirmation'' now
                       (''Repartidor confirm'' @ o_acute @ '' la entrega, esperando confirmaci''
                          @ o_acute @ ''n del cliente'')
                       (d\<lparr>status := ''delivering_confirmation'', deliveredAt := Some now,
                          updatedAt := now\<rparr>)) st
          in (Inr (), notify (customerId found) order_id (Some ''delivering_confirmation'') st1))"

definition confirm_delivery ::
  "datetime \<Rightarrow> oid \<Rightarrow> oid \<Rightarrow> state \<Rightarrow> (error + unit) \<times> state" where
  "confirm_delivery now current_user_id order_id =
     role_required [''delivery''] current_user_id (confirm_delivery_body now current_user_id order_id)"

definition confirm_received ::
  "datetime \<Rightarrow> oid \<Rightarrow> oid \<Rightarrow> state \<Rightarrow> (error + unit) \<times> state" where
  "confirm_received now current_user_id order_id st =
     (case users st current_user_id of
        None \<Rightarrow> (Inl Forbidden, st)
      | Some u \<Rightarrow>
        if role u \<noteq> ''customer'' then (Inl Forbidden, st)
        else
          (case find_order order_id st of
             None \<Rightarrow> (Inl NotFound, st)
           | Some found \<Rightarrow>
             if customerId found \<noteq> current_user_id then (Inl Forbidden, st)
             else if status found \<noteq> ''delivering_confirmation'' then (Inl BadRequest, st)
             else
               (case deliveryPersonId found of
                  None \<Rightarrow> (Inl BadRequest, st)
                | Some courier \<Rightarrow>
                  let st1 = update_order order_id
                        (\<lambda>d. push_history ''delivered'' now
                               (''Cliente confirm'' @ o_acute @ '' la recepci'' @ o_acute
                                  @ ''n del pedido'')
                               (d\<lparr>status := ''delivered'', receivedAt := Some now,
                                  updatedAt := now, paymentStatus := ''paid''\<rparr>)) st
                  in (Inr (), notify courier order_id (Some ''delivered'') st1))))"

record cancel_request =
  req_reason :: "string option"
  req_cancelled_by :: "string option"

text \<open>
  \<^verbatim>\<open>cancel_order\<close>: \<^verbatim>\<open>cancelled_by\<close> comes from the request body. The handler reads the caller's
  user document and does not use it.
\<close>

definition cancel_order ::
  "datetime \<Rightarrow> oid \<Rightarrow> oid \<Rightarrow> cancel_request \<Rightarrow> state \<Rightarrow> (error + unit) \<times> state" where
  "cancel_order now current_user_id order_id data st =
     (let reason = get_or (req_reason data) (''Sin raz'' @ o_acute @ ''n especificada'');
          cancelled_by = get_or (req_cancelled_by data) ''customer''
      in case find_order order_id st of
           None \<Rightarrow> (Inl NotFound, st)
         | Some found \<Rightarrow>
           if cancelled_by = ''customer'' \<and> customerId found \<noteq> current_user_id then
             (Inl Forbidden, st)
           else if cancelled_by = ''delivery'' \<and> deliveryPersonId found \<noteq> Some current_user_id then
             (Inl Forbidden, st)
           else
             (Inr (), update_order order_id
                (\<lambda>d. d\<lparr>status := ''cancelled'', cancellationReason := Some reason,
                       cancelledBy := Some cancelled_by, cancelledAt := Some now,
                       updatedAt := now\<rparr>) st))"

section \<open>Coupons\<close>







section \<open>Operations as steps\<close>

datatype op =
    CreateOrder datetime string oid oid create_order_request
  | UpdateOrderStatus datetime oid oid status_request
  | AssignDeliveryPerson datetime oid oid "oid option"
  | AcceptDeliveryOrder datetime oid oid
  | ConfirmDelivery datetime oid oid
  | ConfirmReceived datetime oid oid
  | CancelOrder datetime oid oid cancel_request

fun step :: "op \<Rightarrow> state \<Rightarrow> state" where
  "step (CreateOrder now today new_id uid data) st = snd (create_order now today new_id uid data st)"
| "step (UpdateOrderStatus now uid order_id data) st = snd (update_order_status now uid order_id data st)"
| "step (AssignDeliveryPerson now uid order_id dp) st = snd (assign_delivery_person now uid order_id dp st)"
| "step (AcceptDeliveryOrder now uid order_id) st = snd (accept_delivery_order now uid order_id st)"
| "step (ConfirmDelivery now uid order_id) st = snd (confirm_delivery now uid order_id st)"
| "step (ConfirmReceived now uid order_id) st = snd (confirm_received now uid order_id st)"
| "step (CancelOrder now uid order_id data) st = snd (cancel_order now uid order_id data st)"

fun run :: "op list \<Rightarrow> state \<Rightarrow> state" where
  "run [] st = st"
| "run (a # as) st = run as (step a st)"

section \<open>Properties and sample data\<close>






text \<open>
  A store with an administrator (2), two customers (10, 11), two couriers (20, 21) whose
  delivery-person documents are 30 and 31, and one pending order (100) of customer 10.
\<close>

definition sample_order :: order where
  "sample_order =
     \<lparr>orderNumber = ''ORD-20241210-0001'', customerId = 10, restaurantId = 3,
      deliveryPersonId = None,
      items = [\<lparr>item_dishId = Some 5, item_restaurantId = 3, item_name = ''Pizza Margherita'',
                item_quantity = 1, item_subtotal = 239\<rparr>],
      deliveryAddress = ''Calle 1'', subtotal = 239, deliveryFee = 35, discount = 0,
      tax = 3824 / 100, tip = 30, total = 34224 / 100, status = ''pending'',
      statusHistory = [\<lparr>h_status = ''pending'', h_timestamp = 0, h_note = ''Pedido recibido''\<rparr>],
      paymentMethod = ''card'', paymentStatus = ''pending'', createdAt = 0, updatedAt = 0,
      confirmedAt = None, preparingAt = None, readyAt = None, onDeliveryAt = None,
      acceptedAt = None, deliveredAt = None, receivedAt = None, cancelledAt = None,
      cancellationReason = None, cancelledBy = None\<rparr>"

definition sample_users :: "oid \<rightharpoonup> user" where
  "sample_users = map_of
     [(2, \<lparr>name = ''Admin'', role = ''admin''\<rparr>),
      (10, \<lparr>name = ''Ana'', role = ''customer''\<rparr>),
      (11, \<lparr>name = ''Beto'', role = ''customer''\<rparr>),
      (20, \<lparr>name = ''Carla'', role = ''delivery''\<rparr>),
      (21, \<lparr>name = ''Dario'', role = ''delivery''\<rparr>)]"

definition sample_couriers :: "oid \<rightharpoonup> delivery_person" where
  "sample_couriers = map_of
     [(30, \<lparr>userId = 20, isAvailable = True, isOnline = True\<rparr>),
      (31, \<lparr>userId = 21, isAvailable = True, isOnline = True\<rparr>)]"

definition store_with :: "order \<Rightarrow> state" where
  "store_with d = \<lparr>users = sample_users, orders = [(100, d)], delivery_persons = sample_couriers,
     coupons = [], notifications = []\<rparr>"

text \<open>Order 100 after courier 20 accepted it, and after that courier confirmed the delivery.\<close>

definition accepted_order :: order where
  "accepted_order = sample_order\<lparr>deliveryPersonId := Some 20, status := ''on_delivery'',
     acceptedAt := Some 5, updatedAt := 5\<rparr>"

definition awaiting_order :: order where
  "awaiting_order = accepted_order\<lparr>status := ''delivering_confirmation'', deliveredAt := Some 7,
     updatedAt := 7\<rparr>"

text \<open>The per-order status histories of a store, and the operations that append to one.\<close>

definition histories :: "state \<Rightarrow> (oid \<times> status_entry list) list" where
  "histories st = map (\<lambda>(k, d). (k, statusHistory d)) (orders st)"

fun appends_history :: "op \<Rightarrow> bool" where
  "appends_history (CreateOrder now today new_id uid data) = True"
| "appends_history (UpdateOrderStatus now uid order_id data) = True"
| "appends_history (ConfirmDelivery now uid order_id) = True"
| "appends_history (ConfirmReceived now uid order_id) = True"
| "appends_history (AssignDeliveryPerson now uid order_id dp) = False"
| "appends_history (AcceptDeliveryOrder now uid order_id) = False"
| "appends_history (CancelOrder now uid order_id data) = False"

text \<open>
  The operations that set the status \<^verbatim>\<open>delivered\<close>: the customer's receipt confirmation and a
  status update that asks for \<^verbatim>\<open>delivered\<close>. \<open>trace\<close> lists the stores a run goes through.
\<close>

fun marks_delivered :: "op \<Rightarrow> bool" where
  "marks_delivered (UpdateOrderStatus now uid order_id data) = (req_status data = Some ''delivered'')"
| "marks_delivered (ConfirmReceived now uid order_id) = True"
| "marks_delivered (CreateOrder now today new_id uid data) = False"
| "marks_delivered (AssignDeliveryPerson now uid order_id dp) = False"
| "marks_delivered (AcceptDeliveryOrder now uid order_id) = False"
| "marks_delivered (ConfirmDelivery now uid order_id) = False"
| "marks_delivered (CancelOrder now uid order_id data) = False"

fun trace :: "op list \<Rightarrow> state \<Rightarrow> state list" where
  "trace [] st = [st]"
| "trace (a # as) st = st # trace as (step a st)"

text \<open>Order 100 after customer 10 confirmed the receipt at time 9.\<close>

definition received_order :: order where
  "received_order = awaiting_order\<lparr>status := ''delivered'', receivedAt := Some 9, updatedAt := 9,
     paymentStatus := ''paid'',
     statusHistory := statusHistory awaiting_order @
       [\<lparr>h_status = ''delivered'', h_timestamp = 9,
         h_note = ''Cliente confirm'' @ o_acute @ '' la recepci'' @ o_acute @ ''n del pedido''\<rparr>]\<rparr>"








definition todays_numbers :: "string \<Rightarrow> state \<Rightarrow> string list" where
  "todays_numbers today st =
     filter (prefix (''ORD-'' @ today)) (map (\<lambda>(k, d). orderNumber d) (orders st))"

definition allocated_in_sequence :: "string \<Rightarrow> state \<Rightarrow> bool" where
  "allocated_in_sequence today st \<longleftrightarrow>
     todays_numbers today st =
       map (\<lambda>n. ''ORD-'' @ today @ ''-'' @ zfill 4 (str_nat n))
         [1..<Suc (count_today today (orders st))]"

section \<open>Rounding\<close>











section \<open>Order creation\<close>



lemma str_nat_digit: "n < 10 \<Longrightarrow> str_nat n = [digit_char n]"
  by (simp add: str_nat.simps)





section \<open>The order collection\<close>

lemma map_of_update_one:
  "map_of (update_one i f os) j = (if j = i then map_option f (map_of os i) else map_of os j)"
  by (induction os) auto

lemma find_order_update_order:
  "find_order j (update_order i f st) =
     (if j = i then map_option f (find_order i st) else find_order j st)"
  by (simp add: find_order_def update_order_def map_of_update_one)

lemma find_order_notify: "find_order j (notify u i s st) = find_order j st"
  by (simp add: find_order_def notify_def)

lemma histories_update_one:
  "(\<And>d. statusHistory (f d) = statusHistory d) \<Longrightarrow>
   map (\<lambda>(k, d). (k, statusHistory d)) (update_one i f os) = map (\<lambda>(k, d). (k, statusHistory d)) os"
  by (induction os) auto

lemma histories_update_order:
  "(\<And>d. statusHistory (f d) = statusHistory d) \<Longrightarrow> histories (update_order i f st) = histories st"
  by (simp add: histories_def update_order_def histories_update_one)

lemma role_required_cases:
  "role_required rs uid f st =
     (if \<exists>u. users st uid = Some u \<and> role u \<in> set rs then f st else (Inl Forbidden, st))"
  by (auto simp: role_required_def split: option.splits)

section \<open>Dispatch\<close>

lemma accept_delivery_order_body_assigned:
  "find_order order_id st = Some d \<Longrightarrow> deliveryPersonId d \<noteq> None \<Longrightarrow>
   accept_delivery_order_body now uid order_id st = (Inl BadRequest, st)"
  by (simp add: accept_delivery_order_body_def)

lemma accept_delivery_order_body_free:
  "find_order order_id st = Some d \<Longrightarrow> deliveryPersonId d = None \<Longrightarrow>
   accept_delivery_order_body now uid order_id st =
     (Inr (), update_order order_id
        (\<lambda>d. d\<lparr>deliveryPersonId := Some uid, status := ''on_delivery'',
               acceptedAt := Some now, updatedAt := now\<rparr>) st)"
  by (simp add: accept_delivery_order_body_def)

text \<open>
  C6. For a caller with the role \<^verbatim>\<open>delivery\<close>: on an order that already has a courier,
  \<^verbatim>\<open>accept_delivery_order\<close> fails with the handler's "already assigned" error (HTTP 400) and
  leaves the store as it was; on an order without a courier it succeeds and the order gets
  the caller as \<open>deliveryPersonId\<close>, the status \<^verbatim>\<open>on_delivery\<close> and \<open>acceptedAt = now\<close>.
\<close>

theorem accept_delivery_order_guarded:
  assumes "users st uid = Some u" and "role u = ''delivery''"
    and "find_order order_id st = Some d"
  shows "(deliveryPersonId d \<noteq> None \<longrightarrow>
            accept_delivery_order now uid order_id st = (Inl BadRequest, st))
       \<and> (deliveryPersonId d = None \<longrightarrow>
            fst (accept_delivery_order now uid order_id st) = Inr ()
          \<and> find_order order_id (snd (accept_delivery_order now uid order_id st)) =
              Some (d\<lparr>deliveryPersonId := Some uid, status := ''on_delivery'',
                      acceptedAt := Some now, updatedAt := now\<rparr>))"
proof -
  have r: "accept_delivery_order now uid order_id st = accept_delivery_order_body now uid order_id st"
    using assms(1,2) by (simp add: accept_delivery_order_def role_required_cases)
  show ?thesis
    unfolding r
    using accept_delivery_order_body_assigned [OF assms(3), of now uid]
      accept_delivery_order_body_free [OF assms(3), of now uid] assms(3)
    by (simp add: find_order_update_order)
qed

lemma sample_store_facts:
  "users (store_with d) 2 = Some \<lparr>name = ''Admin'', role = ''admin''\<rparr>"
  "users (store_with d) 10 = Some \<lparr>name = ''Ana'', role = ''customer''\<rparr>"
  "users (store_with d) 11 = Some \<lparr>name = ''Beto'', role = ''customer''\<rparr>"
  "users (store_with d) 20 = Some \<lparr>name = ''Carla'', role = ''delivery''\<rparr>"
  "users (store_with d) 21 = Some \<lparr>name = ''Dario'', role = ''delivery''\<rparr>"
  "delivery_persons (store_with d) 31 = Some \<lparr>userId = 21, isAvailable = True, isOnline = True\<rparr>"
  "find_order 100 (store_with d) = Some d"
  by (simp_all add: store_with_def sample_users_def sample_couriers_def find_order_def)

theorem accept_delivery_order_guarded_witness:
  "accept_delivery_order 6 21 100 (store_with accepted_order) = (Inl BadRequest, store_with accepted_order)
   \<and> fst (accept_delivery_order 5 20 100 (store_with sample_order)) = Inr ()
   \<and> find_order 100 (snd (accept_delivery_order 5 20 100 (store_with sample_order))) = Some accepted_order"
proof -
  have a: "deliveryPersonId accepted_order \<noteq> None" and f: "deliveryPersonId sample_order = None"
    by (simp_all add: accepted_order_def sample_order_def)
  have r: "role \<lparr>name = ''Carla'', role = ''delivery''\<rparr> = ''delivery''"
    "role \<lparr>name = ''Dario'', role = ''delivery''\<rparr> = ''delivery''"
    by simp_all
  from accept_delivery_order_guarded [OF sample_store_facts(5) [of accepted_order] r(2)
      sample_store_facts(7) [of accepted_order], where now = 6] a
  have "accept_delivery_order 6 21 100 (store_with accepted_order) = (Inl BadRequest, store_with accepted_order)"
    by blast
  moreover from accept_delivery_order_guarded [OF sample_store_facts(4) [of sample_order] r(1)
      sample_store_facts(7) [of sample_order], where now = 5] f
  have "fst (accept_delivery_order 5 20 100 (store_with sample_order)) = Inr ()
     \<and> find_order 100 (snd (accept_delivery_order 5 20 100 (store_with sample_order))) =
         Some (sample_order\<lparr>deliveryPersonId := Some 20, status := ''on_delivery'',
                 acceptedAt := Some 5, updatedAt := 5\<rparr>)"
    by blast
  ultimately show ?thesis
    by (simp add: accepted_order_def)
qed

lemma assign_delivery_person_available:
  assumes "users st uid = Some u" and "role u \<in> {''admin'', ''restaurant_owner''}"
    and "delivery_persons st dp_id = Some dp" and "isAvailable dp" and "isOnline dp"
  shows "fst (assign_delivery_person now uid order_id (Some dp_id) st) = Inr ()"
    and "find_order order_id (snd (assign_delivery_person now uid order_id (Some dp_id) st)) =
           map_option (\<lambda>d. d\<lparr>deliveryPersonId := Some dp_id, status := ''on_delivery'',
                              onDeliveryAt := Some now, updatedAt := now\<rparr>) (find_order order_id st)"
proof -
  have r: "assign_delivery_person now uid order_id (Some dp_id) st =
           assign_delivery_person_body now order_id (Some dp_id) st"
    using assms(1,2) by (auto simp: assign_delivery_person_def role_required_cases)
  show "fst (assign_delivery_person now uid order_id (Some dp_id) st) = Inr ()"
    unfolding r using assms(3-5) by (simp add: assign_delivery_person_body_def Let_def)
  have "find_order order_id (snd (assign_delivery_person_body now order_id (Some dp_id) st)) =
        find_order order_id (update_order order_id
           (\<lambda>d. d\<lparr>deliveryPersonId := Some dp_id, status := ''on_delivery'',
                  onDeliveryAt := Some now, updatedAt := now\<rparr>) st)"
    using assms(3-5) by (simp add: assign_delivery_person_body_def Let_def find_order_def)
  then show "find_order order_id (snd (assign_delivery_person now uid order_id (Some dp_id) st)) =
           map_option (\<lambda>d. d\<lparr>deliveryPersonId := Some dp_id, status := ''on_delivery'',
                              onDeliveryAt := Some now, updatedAt := now\<rparr>) (find_order order_id st)"
    unfolding r by (simp add: find_order_update_order)
qed

text \<open>
  C1 does not hold of \<^verbatim>\<open>assign_delivery_person\<close>. Order 100 is held by courier 20. An
  administrator assigns delivery person 31: the call succeeds and the order's \<open>deliveryPersonId\<close> changes
  from 20 to 31.
\<close>

theorem assign_delivery_person_reassigns:
  "map_option deliveryPersonId (find_order 100 (store_with accepted_order)) = Some (Some 20)
   \<and> fst (assign_delivery_person 8 2 100 (Some 31) (store_with accepted_order)) = Inr ()
   \<and> map_option deliveryPersonId
        (find_order 100 (snd (assign_delivery_person 8 2 100 (Some 31) (store_with accepted_order))))
      = Some (Some 31)"
proof -
  have r: "role \<lparr>name = ''Admin'', role = ''admin''\<rparr> \<in> {''admin'', ''restaurant_owner''}"
    and c: "isAvailable \<lparr>userId = 21, isAvailable = True, isOnline = True\<rparr>"
      "isOnline \<lparr>userId = 21, isAvailable = True, isOnline = True\<rparr>"
    by simp_all
  note a = assign_delivery_person_available [OF sample_store_facts(1) [of accepted_order] r
      sample_store_facts(6) [of accepted_order] c, where now = 8 and order_id = 100]
  show ?thesis
    unfolding a by (simp add: sample_store_facts accepted_order_def)
qed

section \<open>Status transitions\<close>

lemma update_order_status_body_invalid:
  "req_status data = Some s \<Longrightarrow> s \<notin> set valid_statuses \<Longrightarrow>
   update_order_status_body now order_id data st = (Inl BadRequest, st)"
  by (simp add: update_order_status_body_def)

text \<open>
  C5. A caller with one of the roles admin, restaurant_owner, delivery asks for a status
  that is not one of the seven recognised strings: \<^verbatim>\<open>update_order_status\<close> answers 400 and
  the store is the one before the call, so the order keeps its status and its history.
\<close>

theorem update_order_status_invalid:
  assumes "users st uid = Some u" and "role u \<in> {''admin'', ''restaurant_owner'', ''delivery''}"
    and "find_order order_id st = Some d"
    and "req_status data = Some s" and "s \<notin> set valid_statuses"
  shows "update_order_status now uid order_id data st = (Inl BadRequest, st)
       \<and> status_code BadRequest = 400
       \<and> map_option status (find_order order_id (snd (update_order_status now uid order_id data st)))
           = Some (status d)
       \<and> map_option statusHistory (find_order order_id (snd (update_order_status now uid order_id data st)))
           = Some (statusHistory d)"
proof -
  have "update_order_status now uid order_id data st = update_order_status_body now order_id data st"
    using assms(1,2) by (auto simp: update_order_status_def role_required_cases)
  then have "update_order_status now uid order_id data st = (Inl BadRequest, st)"
    using update_order_status_body_invalid [OF assms(4,5)] by simp
  then show ?thesis
    using assms(3) by simp
qed

theorem update_order_status_invalid_witness:
  "update_order_status 4 2 100 \<lparr>req_status = Some ''shipped'', req_note = None\<rparr> (store_with sample_order)
     = (Inl BadRequest, store_with sample_order)
   \<and> map_option status
        (find_order 100 (snd (update_order_status 4 2 100
           \<lparr>req_status = Some ''shipped'', req_note = None\<rparr> (store_with sample_order))))
      = Some ''pending''"
proof -
  have r: "role \<lparr>name = ''Admin'', role = ''admin''\<rparr> \<in> {''admin'', ''restaurant_owner'', ''delivery''}"
    and s: "req_status \<lparr>req_status = Some ''shipped'', req_note = None\<rparr> = Some ''shipped''"
    and v: "''shipped'' \<notin> set valid_statuses"
    by (simp_all add: valid_statuses_def)
  from update_order_status_invalid [OF sample_store_facts(1) [of sample_order] r
      sample_store_facts(7) [of sample_order] s v, where now = 4]
  have e: "update_order_status 4 2 100 \<lparr>req_status = Some ''shipped'', req_note = None\<rparr>
             (store_with sample_order) = (Inl BadRequest, store_with sample_order)"
    by blast
  show ?thesis
    unfolding e by (simp add: sample_store_facts) (simp add: sample_order_def)
qed

section \<open>Receipt confirmation\<close>

text \<open>
  C3. On an existing order, \<^verbatim>\<open>confirm_received\<close> succeeds exactly when the caller is a
  customer, is the order's customer, the status is \<^verbatim>\<open>delivering_confirmation\<close> and a courier
  is assigned. Then the order becomes \<^verbatim>\<open>delivered\<close> and \<^verbatim>\<open>paid\<close>, \<open>receivedAt\<close> is set and one
  history entry is appended. Otherwise the answer is 400 or 403 and the store is unchanged.
\<close>

theorem confirm_received_handshake:
  assumes "find_order order_id st = Some d"
  shows "(if (\<exists>u. users st uid = Some u \<and> role u = ''customer'') \<and> customerId d = uid
             \<and> status d = ''delivering_confirmation'' \<and> deliveryPersonId d \<noteq> None
          then fst (confirm_received now uid order_id st) = Inr ()
             \<and> find_order order_id (snd (confirm_received now uid order_id st)) =
                 Some (d\<lparr>status := ''delivered'', receivedAt := Some now, updatedAt := now,
                         paymentStatus := ''paid'',
                         statusHistory := statusHistory d @
                           [\<lparr>h_status = ''delivered'', h_timestamp = now,
                             h_note = ''Cliente confirm'' @ o_acute @ '' la recepci'' @ o_acute
                                        @ ''n del pedido''\<rparr>]\<rparr>)
          else fst (confirm_received now uid order_id st) \<in> {Inl BadRequest, Inl Forbidden}
             \<and> snd (confirm_received now uid order_id st) = st)"
  using assms
  by (auto simp: confirm_received_def Let_def find_order_update_order find_order_notify
      push_history_def split: option.splits)

lemma awaiting_order_facts:
  "customerId awaiting_order = 10" "status awaiting_order = ''delivering_confirmation''"
  "deliveryPersonId awaiting_order = Some 20"
  by (simp_all add: awaiting_order_def accepted_order_def sample_order_def)

theorem confirm_received_handshake_witness:
  "fst (confirm_received 9 10 100 (store_with awaiting_order)) = Inr ()
   \<and> map_option status (find_order 100 (snd (confirm_received 9 10 100 (store_with awaiting_order))))
       = Some ''delivered''
   \<and> map_option paymentStatus (find_order 100 (snd (confirm_received 9 10 100 (store_with awaiting_order))))
       = Some ''paid''
   \<and> map_option receivedAt (find_order 100 (snd (confirm_received 9 10 100 (store_with awaiting_order))))
       = Some (Some 9)
   \<and> fst (confirm_received 9 11 100 (store_with awaiting_order)) = Inl Forbidden
   \<and> snd (confirm_received 9 11 100 (store_with awaiting_order)) = store_with awaiting_order"
proof -
  have c: "(\<exists>u. users (store_with awaiting_order) 10 = Some u \<and> role u = ''customer'')
           \<and> customerId awaiting_order = 10
           \<and> status awaiting_order = ''delivering_confirmation'' \<and> deliveryPersonId awaiting_order \<noteq> None"
    by (simp add: sample_store_facts awaiting_order_facts)
  have n: "\<not> ((\<exists>u. users (store_with awaiting_order) 11 = Some u \<and> role u = ''customer'')
           \<and> customerId awaiting_order = 11
           \<and> status awaiting_order = ''delivering_confirmation'' \<and> deliveryPersonId awaiting_order \<noteq> None)"
    by (simp add: awaiting_order_facts)
  from confirm_received_handshake [OF sample_store_facts(7) [of awaiting_order], where uid = 10 and now = 9] c
  have 1: "fst (confirm_received 9 10 100 (store_with awaiting_order)) = Inr ()
     \<and> find_order 100 (snd (confirm_received 9 10 100 (store_with awaiting_order))) =
                 Some (awaiting_order\<lparr>status := ''delivered'', receivedAt := Some 9, updatedAt := 9,
                         paymentStatus := ''paid'',
                         statusHistory := statusHistory awaiting_order @
                           [\<lparr>h_status = ''delivered'', h_timestamp = 9,
                             h_note = ''Cliente confirm'' @ o_acute @ '' la recepci'' @ o_acute
                                        @ ''n del pedido''\<rparr>]\<rparr>)"
    by (simp only: simp_thms if_True)
  from confirm_received_handshake [OF sample_store_facts(7) [of awaiting_order], where uid = 11 and now = 9] n
  have 2: "fst (confirm_received 9 11 100 (store_with awaiting_order)) \<in> {Inl BadRequest, Inl Forbidden}
     \<and> snd (confirm_received 9 11 100 (store_with awaiting_order)) = store_with awaiting_order"
    by (simp only: simp_thms if_False)
  have 3: "fst (confirm_received 9 11 100 (store_with awaiting_order)) = Inl Forbidden"
    by (simp add: confirm_received_def sample_store_facts awaiting_order_facts)
  from 1 have a: "fst (confirm_received 9 10 100 (store_with awaiting_order)) = Inr ()"
    and b: "find_order 100 (snd (confirm_received 9 10 100 (store_with awaiting_order))) =
                 Some (awaiting_order\<lparr>status := ''delivered'', receivedAt := Some 9, updatedAt := 9,
                         paymentStatus := ''paid'',
                         statusHistory := statusHistory awaiting_order @
                           [\<lparr>h_status = ''delivered'', h_timestamp = 9,
                             h_note = ''Cliente confirm'' @ o_acute @ '' la recepci'' @ o_acute
                                        @ ''n del pedido''\<rparr>]\<rparr>)"
    by blast+
  from 2 have c: "snd (confirm_received 9 11 100 (store_with awaiting_order)) = store_with awaiting_order"
    by blast
  show ?thesis
    unfolding a b c 3 by simp
qed

section \<open>Cancellation\<close>

text \<open>
  C7 does not hold of \<^verbatim>\<open>cancel_order\<close>. Customer 11 is neither the customer of order 100
  (that is 10), nor its courier (it has none), nor an administrator. With
  \<^verbatim>\<open>cancelled_by = 'admin'\<close> in the request body the call succeeds and the order is cancelled.
\<close>

theorem cancel_order_unverified_admin:
  "map_option role (users (store_with sample_order) 11) = Some ''customer''
   \<and> customerId sample_order = 10 \<and> deliveryPersonId sample_order = None
   \<and> fst (cancel_order 9 11 100 \<lparr>req_reason = None, req_cancelled_by = Some ''admin''\<rparr>
            (store_with sample_order)) = Inr ()
   \<and> map_option status (find_order 100 (snd (cancel_order 9 11 100
        \<lparr>req_reason = None, req_cancelled_by = Some ''admin''\<rparr> (store_with sample_order))))
       = Some ''cancelled''
   \<and> map_option cancelledBy (find_order 100 (snd (cancel_order 9 11 100
        \<lparr>req_reason = None, req_cancelled_by = Some ''admin''\<rparr> (store_with sample_order))))
       = Some (Some ''admin'')"
  by (simp add: cancel_order_def Let_def get_or_def sample_store_facts find_order_update_order)
    (simp add: sample_order_def)

section \<open>Status history frame\<close>

lemma histories_other_fields:
  "histories (st\<lparr>delivery_persons := x\<rparr>) = histories st"
  "histories (notify u i s st) = histories st"
  by (simp_all add: histories_def notify_def)

lemma histories_assign_delivery_person:
  "histories (snd (assign_delivery_person now uid order_id dp st)) = histories st"
  by (simp add: assign_delivery_person_def role_required_cases assign_delivery_person_body_def
      Let_def histories_other_fields histories_update_order split: option.splits)

lemma histories_accept_delivery_order:
  "histories (snd (accept_delivery_order now uid order_id st)) = histories st"
  by (simp add: accept_delivery_order_def role_required_cases accept_delivery_order_body_def
      histories_update_order split: option.splits)

lemma histories_cancel_order:
  "histories (snd (cancel_order now uid order_id data st)) = histories st"
  by (simp add: cancel_order_def Let_def histories_update_order split: option.splits)

text \<open>
  C10. \<^verbatim>\<open>assign_delivery_person\<close>, \<^verbatim>\<open>accept_delivery_order\<close> and \<^verbatim>\<open>cancel_order\<close> leave the status
  history of every order as it was, whatever their outcome; so of all operations only
  creation, \<^verbatim>\<open>update_order_status\<close>, \<^verbatim>\<open>confirm_delivery\<close> and \<^verbatim>\<open>confirm_received\<close> can change a
  history.
\<close>

theorem dispatch_and_cancel_keep_history:
  "histories (snd (assign_delivery_person now uid order_id dp st)) = histories st
   \<and> histories (snd (accept_delivery_order now uid order_id st)) = histories st
   \<and> histories (snd (cancel_order now uid order_id data st)) = histories st
   \<and> (\<not> appends_history a \<longrightarrow> histories (step a st) = histories st)"
proof -
  have "histories (step a st) = histories st" if "\<not> appends_history a"
    using that
    by (cases a)
      (simp_all add: histories_assign_delivery_person histories_accept_delivery_order
        histories_cancel_order)
  then show ?thesis
    by (simp add: histories_assign_delivery_person histories_accept_delivery_order
        histories_cancel_order)
qed

theorem dispatch_and_cancel_keep_history_witness:
  "map_option status (find_order 100
      (step (CancelOrder 9 10 100 \<lparr>req_reason = None, req_cancelled_by = None\<rparr>) (store_with sample_order)))
     = Some ''cancelled''
   \<and> histories (step (CancelOrder 9 10 100 \<lparr>req_reason = None, req_cancelled_by = None\<rparr>)
        (store_with sample_order))
     = [(100, [\<lparr>h_status = ''pending'', h_timestamp = 0, h_note = ''Pedido recibido''\<rparr>])]"
proof -
  have "\<not> appends_history (CancelOrder 9 10 100 \<lparr>req_reason = None, req_cancelled_by = None\<rparr>)"
    by simp
  with dispatch_and_cancel_keep_history [where a = "CancelOrder 9 10 100 \<lparr>req_reason = None, req_cancelled_by = None\<rparr>"
      and st = "store_with sample_order"]
  have "histories (step (CancelOrder 9 10 100 \<lparr>req_reason = None, req_cancelled_by = None\<rparr>)
        (store_with sample_order)) = histories (store_with sample_order)"
    by blast
  moreover have "histories (store_with sample_order) =
      [(100, [\<lparr>h_status = ''pending'', h_timestamp = 0, h_note = ''Pedido recibido''\<rparr>])]"
    by (simp add: histories_def store_with_def sample_order_def)
  moreover have "map_option status (find_order 100
      (step (CancelOrder 9 10 100 \<lparr>req_reason = None, req_cancelled_by = None\<rparr>) (store_with sample_order)))
     = Some ''cancelled''"
    by (simp add: cancel_order_def Let_def get_or_def sample_store_facts find_order_update_order)
      (simp add: sample_order_def)
  ultimately show ?thesis by simp
qed

section \<open>Payment status\<close>

lemma paymentStatus_set_phase:
  "paymentStatus (set_phase s now d) = (if s = ''delivered'' then ''paid'' else paymentStatus d)"
  by (simp add: set_phase_def)

lemma status_set_phase: "status (set_phase s now d) = status d"
  by (simp add: set_phase_def)

lemma push_history_fields:
  "paymentStatus (push_history s now n d) = paymentStatus d"
  "status (push_history s now n d) = status d"
  by (simp_all add: push_history_def)

lemma find_order_delivery_persons_update:
  "find_order i (st\<lparr>delivery_persons := x\<rparr>) = find_order i st"
  by (simp add: find_order_def)

lemma paid_create_order:
  assumes "find_order i (snd (create_order now today new_id uid data st)) = Some d'"
    and "paymentStatus d' = ''paid''"
  shows "\<exists>d. find_order i st = Some d \<and> (paymentStatus d = ''paid'' \<or> status d' = ''delivered'' \<and> False)"
proof (cases "find_order i st")
  case None
  with assms show ?thesis
    by (auto simp: create_order_def Let_def find_order_def notify_def
        split: list.splits option.splits if_splits)
next
  case (Some d)
  then have "find_order i (snd (create_order now today new_id uid data st)) = Some d"
    by (auto simp: create_order_def Let_def find_order_def notify_def
        split: list.splits option.splits if_splits)
  with assms Some show ?thesis by simp
qed

lemmas find_order_after =
  find_order_update_order find_order_notify find_order_delivery_persons_update
  push_history_fields paymentStatus_set_phase status_set_phase

lemma paid_update_order_status:
  assumes "find_order i (snd (update_order_status now uid order_id data st)) = Some d'"
    and "paymentStatus d' = ''paid''"
  shows "\<exists>d. find_order i st = Some d \<and>
           (paymentStatus d = ''paid'' \<or> status d' = ''delivered'' \<and> req_status data = Some ''delivered'')"
  using assms
  by (auto simp: update_order_status_def role_required_cases update_order_status_body_def Let_def
      find_order_after split: option.splits if_splits)

lemma paid_assign_delivery_person:
  assumes "find_order i (snd (assign_delivery_person now uid order_id dp st)) = Some d'"
    and "paymentStatus d' = ''paid''"
  shows "\<exists>d. find_order i st = Some d \<and> (paymentStatus d = ''paid'' \<or> status d' = ''delivered'' \<and> False)"
  using assms
  by (auto simp: assign_delivery_person_def role_required_cases assign_delivery_person_body_def
      Let_def find_order_after split: option.splits if_splits)

lemma paid_accept_delivery_order:
  assumes "find_order i (snd (accept_delivery_order now uid order_id st)) = Some d'"
    and "paymentStatus d' = ''paid''"
  shows "\<exists>d. find_order i st = Some d \<and> (paymentStatus d = ''paid'' \<or> status d' = ''delivered'' \<and> False)"
  using assms
  by (auto simp: accept_delivery_order_def role_required_cases accept_delivery_order_body_def
      find_order_after split: option.splits if_splits)

lemma paid_confirm_delivery:
  assumes "find_order i (snd (confirm_delivery now uid order_id st)) = Some d'"
    and "paymentStatus d' = ''paid''"
  shows "\<exists>d. find_order i st = Some d \<and> (paymentStatus d = ''paid'' \<or> status d' = ''delivered'' \<and> False)"
  using assms
  by (auto simp: confirm_delivery_def role_required_cases confirm_delivery_body_def Let_def
      find_order_after split: option.splits if_splits)

lemma paid_confirm_received:
  assumes "find_order i (snd (confirm_received now uid order_id st)) = Some d'"
    and "paymentStatus d' = ''paid''"
  shows "\<exists>d. find_order i st = Some d \<and> (paymentStatus d = ''paid'' \<or> status d' = ''delivered'' \<and> True)"
  using assms
  by (auto simp: confirm_received_def Let_def find_order_after split: option.splits if_splits)

lemma paid_cancel_order:
  assumes "find_order i (snd (cancel_order now uid order_id data st)) = Some d'"
    and "paymentStatus d' = ''paid''"
  shows "\<exists>d. find_order i st = Some d \<and> (paymentStatus d = ''paid'' \<or> status d' = ''delivered'' \<and> False)"
  using assms
  by (auto simp: cancel_order_def Let_def find_order_after split: option.splits if_splits)

lemma paid_step:
  assumes "find_order i (step a st) = Some d'" and "paymentStatus d' = ''paid''"
  shows "\<exists>d. find_order i st = Some d \<and>
           (paymentStatus d = ''paid'' \<or> status d' = ''delivered'' \<and> marks_delivered a)"
proof (cases a)
  case (CreateOrder now today new_id uid data)
  with paid_create_order [of i now today new_id uid data st d'] assms show ?thesis by simp
next
  case (UpdateOrderStatus now uid order_id data)
  with paid_update_order_status [of i now uid order_id data st d'] assms show ?thesis by simp
next
  case (AssignDeliveryPerson now uid order_id dp)
  with paid_assign_delivery_person [of i now uid order_id dp st d'] assms show ?thesis by simp
next
  case (AcceptDeliveryOrder now uid order_id)
  with paid_accept_delivery_order [of i now uid order_id st d'] assms show ?thesis by simp
next
  case (ConfirmDelivery now uid order_id)
  with paid_confirm_delivery [of i now uid order_id st d'] assms show ?thesis by simp
next
  case (ConfirmReceived now uid order_id)
  with paid_confirm_received [of i now uid order_id st d'] assms show ?thesis by simp
next
  case (CancelOrder now uid order_id data)
  with paid_cancel_order [of i now uid order_id data st d'] assms show ?thesis by simp
qed

lemma trace_starts: "st \<in> set (trace ops st)"
  by (cases ops) simp_all

lemma paid_run:
  assumes "\<And>d. find_order i st \<noteq> Some d \<or> paymentStatus d \<noteq> ''paid''"
    and "find_order i (run ops st) = Some d'" and "paymentStatus d' = ''paid''"
  shows "\<exists>s e. s \<in> set (trace ops st) \<and> find_order i s = Some e \<and> status e = ''delivered''"
  using assms
proof (induction ops arbitrary: st)
  case Nil
  then show ?case by auto
next
  case (Cons a ops)
  show ?case
  proof (cases "\<exists>d1. find_order i (step a st) = Some d1 \<and> paymentStatus d1 = ''paid''")
    case True
    then obtain d1 where d1: "find_order i (step a st) = Some d1" "paymentStatus d1 = ''paid''"
      by blast
    from paid_step [OF d1] Cons.prems(1) have "status d1 = ''delivered''"
      by blast
    with d1(1) trace_starts [of "step a st" ops] show ?thesis
      by auto
  next
    case False
    then have "\<And>d. find_order i (step a st) \<noteq> Some d \<or> paymentStatus d \<noteq> ''paid''"
      by blast
    from Cons.IH [OF this] Cons.prems(2,3)
    obtain s e where "s \<in> set (trace ops (step a st))" "find_order i s = Some e"
      "status e = ''delivered''"
      by auto
    then show ?thesis by auto
  qed
qed

text \<open>
  C4. In one step an order goes from not paid to paid only if its new status is
  \<^verbatim>\<open>delivered\<close> and the step is a receipt confirmation or a status update to \<^verbatim>\<open>delivered\<close>. And
  in a run that starts from a store where the order is absent or not paid, an order that
  ends up paid had the status \<^verbatim>\<open>delivered\<close> in some store of the run.
\<close>

theorem paid_only_when_delivered:
  "(find_order i st = Some d \<and> find_order i (step a st) = Some d' \<and> paymentStatus d \<noteq> ''paid''
      \<and> paymentStatus d' = ''paid''
    \<longrightarrow> status d' = ''delivered'' \<and> marks_delivered a)
   \<and> ((\<forall>e. find_order i st \<noteq> Some e \<or> paymentStatus e \<noteq> ''paid'')
      \<and> find_order i (run ops st) = Some d' \<and> paymentStatus d' = ''paid''
    \<longrightarrow> (\<exists>s e. s \<in> set (trace ops st) \<and> find_order i s = Some e \<and> status e = ''delivered''))"
proof (intro conjI impI)
  assume h: "find_order i st = Some d \<and> find_order i (step a st) = Some d' \<and> paymentStatus d \<noteq> ''paid''
      \<and> paymentStatus d' = ''paid''"
  with paid_step [of i a st d'] show "status d' = ''delivered''" and "marks_delivered a"
    by auto
next
  assume "(\<forall>e. find_order i st \<noteq> Some e \<or> paymentStatus e \<noteq> ''paid'')
      \<and> find_order i (run ops st) = Some d' \<and> paymentStatus d' = ''paid''"
  then show "\<exists>s e. s \<in> set (trace ops st) \<and> find_order i s = Some e \<and> status e = ''delivered''"
    using paid_run [of i st ops d'] by blast
qed

lemma confirm_received_sample:
  "find_order 100 (step (ConfirmReceived 9 10 100) (store_with awaiting_order)) = Some received_order"
  by (simp add: confirm_received_def Let_def sample_store_facts awaiting_order_facts
      find_order_after push_history_def received_order_def)

theorem paid_only_when_delivered_witness:
  "map_option paymentStatus (find_order 100 (store_with awaiting_order)) = Some ''pending''
   \<and> map_option paymentStatus (find_order 100 (step (ConfirmReceived 9 10 100) (store_with awaiting_order)))
       = Some ''paid''
   \<and> map_option status (find_order 100 (step (ConfirmReceived 9 10 100) (store_with awaiting_order)))
       = Some ''delivered''
   \<and> marks_delivered (ConfirmReceived 9 10 100)
   \<and> (\<exists>s e. s \<in> set (trace [ConfirmReceived 9 10 100] (store_with awaiting_order))
          \<and> find_order 100 s = Some e \<and> status e = ''delivered'')"
proof -
  let ?st = "store_with awaiting_order" and ?a = "ConfirmReceived 9 10 100"
  have before: "find_order 100 ?st = Some awaiting_order"
    by (rule sample_store_facts)
  have unpaid: "paymentStatus awaiting_order = ''pending''"
    by (simp add: awaiting_order_def accepted_order_def sample_order_def)
  have after: "find_order 100 (step ?a ?st) = Some received_order"
    by (rule confirm_received_sample)
  have paid: "paymentStatus received_order = ''paid''"
    by (simp add: received_order_def)
  have run: "find_order 100 (run [?a] ?st) = Some received_order"
    using after by simp
  note t = paid_only_when_delivered [where i = 100 and st = ?st and a = ?a and d = awaiting_order
      and d' = received_order and ops = "[?a]"]
  from t before after unpaid paid have 1: "status received_order = ''delivered''"
    and 2: "marks_delivered ?a"
    by simp_all
  from t before run unpaid paid
  have 3: "\<exists>s e. s \<in> set (trace [?a] ?st) \<and> find_order 100 s = Some e \<and> status e = ''delivered''"
    by simp
  show ?thesis
    unfolding before after using unpaid paid 1 2 3 by simp
qed

section \<open>Coupons\<close>






section \<open>Order numbers\<close>







lemma length_str_nat_pos: "0 < length (str_nat n)"
  by (subst str_nat.simps) simp




lemma length_todays_numbers: "length (todays_numbers today st) = count_today today (orders st)"
  by (simp add: todays_numbers_def count_today_def filter_map o_def split_def)



lemma allocated_in_sequence_fresh_day:
  "count_today today (orders st) = 0 \<Longrightarrow> allocated_in_sequence today st"
  using length_todays_numbers [of today st] by (simp add: allocated_in_sequence_def)






end
